theory Spec2Isabelle
  imports Main "HOL-Library.Sublist"
begin

section \<open>JavaScript values\<close>

text \<open>
  The values a model attribute or an environment variable holds here: the strings and
  booleans of the data model, \<open>undefined\<close> (what reading an absent attribute or an unset
  variable gives) and \<open>null\<close>.
\<close>

datatype jsval = JSUndefined | JSNull | JSBool bool | JSString string

text \<open>Truthiness, as \<open>?:\<close> and \<open>||\<close> test it: the empty string is falsy, every other string truthy.\<close>

fun ToBoolean :: "jsval \<Rightarrow> bool" where
  "ToBoolean JSUndefined = False"
| "ToBoolean JSNull = False"
| "ToBoolean (JSBool b) = b"
| "ToBoolean (JSString s) = (s \<noteq> [])"

text \<open>The string a template literal substitutes for a value.\<close>

fun ToString :: "jsval \<Rightarrow> string" where
  "ToString JSUndefined = ''undefined''"
| "ToString JSNull = ''null''"
| "ToString (JSBool b) = (if b then ''true'' else ''false'')"
| "ToString (JSString s) = s"

text \<open>
  Errors as values. \<open>TypeError msg\<close> is \<open>new TypeError(msg)\<close>; \<open>NoModelTypeError\<close> is the
  TypeError the engine raises for \<open>this.model.get\<close> when \<open>this.model\<close> is undefined or null
  (its message is the engine's).
\<close>

datatype js_error = TypeError string | NoModelTypeError

section \<open>The model and the view\<close>

text \<open>
  The model a list-item view shows: its attribute table. \<open>get\<close> is the attribute read
  \<open>model.get(name)\<close>, which gives \<open>undefined\<close> for a name the table does not hold.
\<close>

record hdca_model =
  attributes :: "string \<rightharpoonup> jsval"

definition get :: "'m hdca_model_scheme \<Rightarrow> string \<Rightarrow> jsval" where
  "get m name = (case attributes m name of None \<Rightarrow> JSUndefined | Some v \<Rightarrow> v)"

text \<open>
  The state of an \<open>HDCAListItemEdit\<close> view: \<open>this.model\<close>, with \<open>None\<close> for a view whose
  model is absent.
\<close>

record HDCAListItemEdit =
  model :: "hdca_model option"

text \<open>
  A method runs on the view's state and returns its outcome (\<open>Inl\<close> a thrown error,
  \<open>Inr\<close> the returned value) together with the state it leaves.
\<close>

type_synonym ('s, 'a) js_method = "'s \<Rightarrow> (js_error + 'a) \<times> 's"

definition returnM :: "'a \<Rightarrow> ('s, 'a) js_method" where
  "returnM x = (\<lambda>s. (Inr x, s))"

definition throwM :: "js_error \<Rightarrow> ('s, 'a) js_method" where
  "throwM e = (\<lambda>s. (Inl e, s))"

definition bindM :: "('s, 'a) js_method \<Rightarrow> ('a \<Rightarrow> ('s, 'b) js_method) \<Rightarrow> ('s, 'b) js_method" where
  "bindM f g = (\<lambda>s. case f s of (Inl e, s') \<Rightarrow> (Inl e, s') | (Inr x, s') \<Rightarrow> g x s')"

text \<open>\<open>this.model.get(name)\<close>: a read of the state, which throws when the model is absent.\<close>

definition this_model_get :: "string \<Rightarrow> ('x HDCAListItemEdit_scheme, jsval) js_method" where
  "this_model_get name =
     (\<lambda>this. case model this of
        None \<Rightarrow> (Inl NoModelTypeError, this)
      | Some m \<Rightarrow> (Inr (get m name), this))"

section \<open>hdca-li-edit.js\<close>

text \<open>
  The imported module \<open>DC_VIEW_EDIT\<close> (mvc/collection/collection-view-edit) is a parameter:
  its four panel classes, of any type \<open>'c\<close>.
\<close>

record 'c DC_VIEW_EDIT =
  ListCollectionViewEdit :: 'c
  PairCollectionViewEdit :: 'c
  ListOfPairsCollectionViewEdit :: 'c
  ListOfListsCollectionViewEdit :: 'c

text \<open>
  \<open>_getFoldoutPanelClass\<close>: the \<open>switch\<close> compares with \<open>===\<close>, so a case matches only the
  string itself; with no \<open>default\<close>, every other value reaches the \<open>throw\<close>.
\<close>

definition getFoldoutPanelClass ::
  "'c DC_VIEW_EDIT \<Rightarrow> ('x HDCAListItemEdit_scheme, 'c) js_method" where
  "getFoldoutPanelClass DC =
     bindM (this_model_get ''collection_type'') (\<lambda>collectionType.
       if collectionType = JSString ''list'' then returnM (ListCollectionViewEdit DC)
       else if collectionType = JSString ''paired'' then returnM (PairCollectionViewEdit DC)
       else if collectionType = JSString ''list:paired'' then
         returnM (ListOfPairsCollectionViewEdit DC)
       else if collectionType = JSString ''list:list'' then
         returnM (ListOfListsCollectionViewEdit DC)
       else throwM (TypeError (''Unknown collection_type: '' @ ToString collectionType)))"

text \<open>
  The options object \<open>_renderDeleteButton\<close> hands to \<open>faIconButton\<close>. The \<open>onclick\<close> closure
  is kept as the list of its statements: it runs only when the button is clicked.
\<close>

datatype onclick_step = ElFindTrigger string string | ModelDelete

record faIconButton_options =
  title :: string
  classes :: string
  faIcon :: string
  disabled :: jsval
  onclick :: "onclick_step list"

text \<open>
  \<open>_renderDeleteButton\<close>. The imported functions are parameters: \<open>l\<close> is the localizer
  \<open>_l\<close> (utils/localization) and \<open>faIconButton\<close> (ui/fa-icon-button) builds the button, of
  any type \<open>'b\<close>, from its options.
\<close>

definition renderDeleteButton ::
  "(string \<Rightarrow> string) \<Rightarrow> (faIconButton_options \<Rightarrow> 'b) \<Rightarrow>
     ('x HDCAListItemEdit_scheme, 'b) js_method" where
  "renderDeleteButton l faIconButton =
     bindM (this_model_get ''deleted'') (\<lambda>deleted.
       returnM (faIconButton
         \<lparr>title = (if ToBoolean deleted then l ''Dataset collection is already deleted''
                   else l ''Delete''),
          classes = ''delete-btn'',
          faIcon = ''fa-times'',
          disabled = deleted,
          onclick = [ElFindTrigger ''.icon-btn.delete-btn'' ''mouseout'', ModelDelete]\<rparr>))"

text \<open>
  \<open>toString\<close>. \<open>this.model\<close> is tested for truthiness, and a model that is present is an
  object, so truthy. Its own string form comes from the model's class, a parameter here
  (\<open>model_toString\<close>).
\<close>

definition toString ::
  "(hdca_model \<Rightarrow> string) \<Rightarrow> ('x HDCAListItemEdit_scheme, string) js_method" where
  "toString model_toString =
     (\<lambda>this.
        let modelString = (case model this of Some m \<Rightarrow> model_toString m | None \<Rightarrow> ''(no model)'')
        in returnM (''HDCAListItemEdit('' @ modelString @ '')'') this)"

text \<open>
  \<open>this.log(msg)\<close> hands a message to the logger, which this class leaves unset (the
  \<open>logger\<close> line is commented out); the call returns nothing and leaves the view as it is.
\<close>

definition this_log :: "string \<Rightarrow> ('s, unit) js_method" where
  "this_log msg = returnM ()"

text \<open>
  \<open>_renderPrimaryActions\<close>. The base class's method is the parameter
  \<open>super_renderPrimaryActions\<close>, which reads the view and returns its list of buttons. The
  statements run in the source's order: the log message is built (\<open>${this}\<close> calls
  \<open>toString\<close>) and logged, the base class's list is computed, then the delete button, and
  \<open>concat\<close> appends the one-element array.
\<close>

definition renderPrimaryActions ::
  "(hdca_model \<Rightarrow> string) \<Rightarrow> (string \<Rightarrow> string) \<Rightarrow> (faIconButton_options \<Rightarrow> 'b) \<Rightarrow>
     ('x HDCAListItemEdit_scheme \<Rightarrow> 'b list) \<Rightarrow> ('x HDCAListItemEdit_scheme, 'b list) js_method" where
  "renderPrimaryActions model_toString l faIconButton super_renderPrimaryActions =
     bindM (toString model_toString) (\<lambda>this_string.
     bindM (this_log (this_string @ ''._renderPrimaryActions'')) (\<lambda>_.
     bindM (\<lambda>this. returnM (super_renderPrimaryActions this) this) (\<lambda>actions.
     bindM (renderDeleteButton l faIconButton) (\<lambda>deleteButton.
     returnM (actions @ [deleteButton])))))"

section \<open>karma.config.js\<close>

text \<open>
  An entry of the \<open>files\<close> list is a pattern object \<open>{pattern, watched}\<close> or a plain
  string.
\<close>

record file_pattern =
  pattern :: string
  watched :: bool

datatype files_entry = PatternObject file_pattern | PatternString string

definition TESTS_SEPARATE_PACKS :: "file_pattern list" where
  "TESTS_SEPARATE_PACKS =
     [\<lparr>pattern = ''galaxy/scripts/qunit/tests/list-of-pairs-collection-creator.js'', watched = False\<rparr>,
      \<lparr>pattern = ''galaxy/scripts/qunit/tests/galaxy-app-base.js'', watched = False\<rparr>,
      \<lparr>pattern = ''galaxy/scripts/qunit/tests/graph.js'', watched = False\<rparr>,
      \<lparr>pattern = ''galaxy/scripts/qunit/tests/hda-base.js'', watched = False\<rparr>,
      \<lparr>pattern = ''galaxy/scripts/qunit/tests/history_contents_model_tests.js'', watched = False\<rparr>,
      \<lparr>pattern = ''galaxy/scripts/qunit/tests/job-dag.js'', watched = False\<rparr>,
      \<lparr>pattern = ''galaxy/scripts/qunit/tests/metrics-logger.js'', watched = False\<rparr>,
      \<lparr>pattern = ''galaxy/scripts/qunit/tests/popover_tests.js'', watched = False\<rparr>,
      \<lparr>pattern = ''galaxy/scripts/qunit/tests/utils_test.js'', watched = False\<rparr>,
      \<lparr>pattern = ''galaxy/scripts/qunit/tests/page_tests.js'', watched = False\<rparr>,
      \<lparr>pattern = ''galaxy/scripts/qunit/tests/workflow_editor_tests.js'', watched = False\<rparr>]"

definition TESTS_AS_SINGLE_PACK :: "file_pattern list" where
  "TESTS_AS_SINGLE_PACK = [\<lparr>pattern = ''galaxy/scripts/qunit/test.js'', watched = False\<rparr>]"

text \<open>
  \<open>process.env\<close> maps the names of the variables that are set to their values, which are
  strings; reading an unset variable gives \<open>undefined\<close>.
\<close>

definition process_env_get :: "(string \<rightharpoonup> string) \<Rightarrow> string \<Rightarrow> jsval" where
  "process_env_get env name = (case env name of None \<Rightarrow> JSUndefined | Some s \<Rightarrow> JSString s)"

text \<open>\<open>a || b\<close> is \<open>a\<close> when \<open>a\<close> is truthy and \<open>b\<close> otherwise.\<close>

definition js_or :: "jsval \<Rightarrow> jsval \<Rightarrow> jsval" where
  "js_or a b = (if ToBoolean a then a else b)"

definition single_pack_mode :: "(string \<rightharpoonup> string) \<Rightarrow> jsval" where
  "single_pack_mode env = js_or (process_env_get env ''GALAXY_TEST_AS_SINGLE_PACK'') (JSBool False)"

text \<open>
  The object \<open>module.exports\<close> hands to \<open>config.set\<close>. The adjusted webpack configuration
  is a parameter of any type \<open>'w\<close>.
\<close>

record 'w karma_config =
  basepath :: string
  files :: "files_entry list"
  plugins :: "string list"
  polyfill :: "string list"
  preprocessors :: "(string \<times> string list) list"
  frameworks :: "string list"
  webpack :: 'w
  webpackMiddleware_noInfo :: bool

definition module_exports :: "(string \<rightharpoonup> string) \<Rightarrow> 'w \<Rightarrow> 'w karma_config" where
  "module_exports env webpackConfig =
     \<lparr>basepath = ''.'',
      files = map PatternObject
                (if ToBoolean (single_pack_mode env) then TESTS_AS_SINGLE_PACK
                 else TESTS_SEPARATE_PACKS)
              @ [PatternString ''galaxy/scripts/qunit/assets/*.css''],
      plugins = [''karma-webpack'', ''karma-qunit'', ''karma-polyfill'', ''karma-phantomjs-launcher''],
      polyfill = [''Object.assign''],
      preprocessors = [(''galaxy/scripts/qunit/**/*.js'', [''webpack''])],
      frameworks = [''polyfill'', ''qunit''],
      webpack = webpackConfig,
      webpackMiddleware_noInfo = False\<rparr>"

section \<open>Running a method on a view that has a model\<close>

lemma this_model_get_Some:
  "model this = Some m \<Longrightarrow> this_model_get name this = (Inr (get m name), this)"
  by (simp add: this_model_get_def)

lemma bindM_this_model_get:
  "model this = Some m \<Longrightarrow> bindM (this_model_get name) g this = g (get m name) this"
  by (simp add: bindM_def this_model_get_Some)

lemma getFoldoutPanelClass_on_model:
  assumes "model this = Some m"
  shows "getFoldoutPanelClass DC this =
    (if get m ''collection_type'' = JSString ''list'' then (Inr (ListCollectionViewEdit DC), this)
     else if get m ''collection_type'' = JSString ''paired'' then
       (Inr (PairCollectionViewEdit DC), this)
     else if get m ''collection_type'' = JSString ''list:paired'' then
       (Inr (ListOfPairsCollectionViewEdit DC), this)
     else if get m ''collection_type'' = JSString ''list:list'' then
       (Inr (ListOfListsCollectionViewEdit DC), this)
     else (Inl (TypeError (''Unknown collection_type: ''
             @ ToString (get m ''collection_type''))), this))"
  unfolding getFoldoutPanelClass_def bindM_this_model_get [OF assms]
  by (simp add: returnM_def throwM_def)

section \<open>Selecting the editing panel\<close>

text \<open>
  C1. For a view whose model has one of the four known \<open>collection_type\<close> values,
  \<open>_getFoldoutPanelClass\<close> returns the matching class of \<open>DC_VIEW_EDIT\<close>: \<open>list\<close> gives
  \<open>ListCollectionViewEdit\<close>, \<open>paired\<close> gives \<open>PairCollectionViewEdit\<close>, \<open>list:paired\<close> gives
  \<open>ListOfPairsCollectionViewEdit\<close> and \<open>list:list\<close> gives \<open>ListOfListsCollectionViewEdit\<close>.
\<close>

theorem getFoldoutPanelClass_known:
  assumes "model this = Some m"
  shows "(get m ''collection_type'' = JSString ''list'' \<longrightarrow>
            fst (getFoldoutPanelClass DC this) = Inr (ListCollectionViewEdit DC))
       \<and> (get m ''collection_type'' = JSString ''paired'' \<longrightarrow>
            fst (getFoldoutPanelClass DC this) = Inr (PairCollectionViewEdit DC))
       \<and> (get m ''collection_type'' = JSString ''list:paired'' \<longrightarrow>
            fst (getFoldoutPanelClass DC this) = Inr (ListOfPairsCollectionViewEdit DC))
       \<and> (get m ''collection_type'' = JSString ''list:list'' \<longrightarrow>
            fst (getFoldoutPanelClass DC this) = Inr (ListOfListsCollectionViewEdit DC))"
  by (simp add: getFoldoutPanelClass_on_model [OF assms])

theorem getFoldoutPanelClass_known_witness:
  "fst (getFoldoutPanelClass
          \<lparr>ListCollectionViewEdit = ''L'', PairCollectionViewEdit = ''P'',
           ListOfPairsCollectionViewEdit = ''LP'', ListOfListsCollectionViewEdit = ''LL''\<rparr>
          \<lparr>model = Some \<lparr>attributes = [''collection_type'' \<mapsto> JSString ''list'']\<rparr>\<rparr>) = Inr ''L''
   \<and> fst (getFoldoutPanelClass
          \<lparr>ListCollectionViewEdit = ''L'', PairCollectionViewEdit = ''P'',
           ListOfPairsCollectionViewEdit = ''LP'', ListOfListsCollectionViewEdit = ''LL''\<rparr>
          \<lparr>model = Some \<lparr>attributes = [''collection_type'' \<mapsto> JSString ''paired'']\<rparr>\<rparr>) = Inr ''P''
   \<and> fst (getFoldoutPanelClass
          \<lparr>ListCollectionViewEdit = ''L'', PairCollectionViewEdit = ''P'',
           ListOfPairsCollectionViewEdit = ''LP'', ListOfListsCollectionViewEdit = ''LL''\<rparr>
          \<lparr>model = Some \<lparr>attributes = [''collection_type'' \<mapsto> JSString ''list:paired'',
                                        ''deleted'' \<mapsto> JSBool True]\<rparr>\<rparr>) = Inr ''LP''
   \<and> fst (getFoldoutPanelClass
          \<lparr>ListCollectionViewEdit = ''L'', PairCollectionViewEdit = ''P'',
           ListOfPairsCollectionViewEdit = ''LP'', ListOfListsCollectionViewEdit = ''LL''\<rparr>
          \<lparr>model = Some \<lparr>attributes = [''collection_type'' \<mapsto> JSString ''list:list'']\<rparr>\<rparr>) = Inr ''LL''"
  using getFoldoutPanelClass_known
      [of "\<lparr>model = Some \<lparr>attributes = [''collection_type'' \<mapsto> JSString ''list'']\<rparr>\<rparr>"
          "\<lparr>attributes = [''collection_type'' \<mapsto> JSString ''list'']\<rparr>"
          "\<lparr>ListCollectionViewEdit = ''L'', PairCollectionViewEdit = ''P'',
           ListOfPairsCollectionViewEdit = ''LP'', ListOfListsCollectionViewEdit = ''LL''\<rparr>"]
    getFoldoutPanelClass_known
      [of "\<lparr>model = Some \<lparr>attributes = [''collection_type'' \<mapsto> JSString ''paired'']\<rparr>\<rparr>"
          "\<lparr>attributes = [''collection_type'' \<mapsto> JSString ''paired'']\<rparr>"
          "\<lparr>ListCollectionViewEdit = ''L'', PairCollectionViewEdit = ''P'',
           ListOfPairsCollectionViewEdit = ''LP'', ListOfListsCollectionViewEdit = ''LL''\<rparr>"]
    getFoldoutPanelClass_known
      [of "\<lparr>model = Some \<lparr>attributes = [''collection_type'' \<mapsto> JSString ''list:paired'',
                                        ''deleted'' \<mapsto> JSBool True]\<rparr>\<rparr>"
          "\<lparr>attributes = [''collection_type'' \<mapsto> JSString ''list:paired'',
                                        ''deleted'' \<mapsto> JSBool True]\<rparr>"
          "\<lparr>ListCollectionViewEdit = ''L'', PairCollectionViewEdit = ''P'',
           ListOfPairsCollectionViewEdit = ''LP'', ListOfListsCollectionViewEdit = ''LL''\<rparr>"]
    getFoldoutPanelClass_known
      [of "\<lparr>model = Some \<lparr>attributes = [''collection_type'' \<mapsto> JSString ''list:list'']\<rparr>\<rparr>"
          "\<lparr>attributes = [''collection_type'' \<mapsto> JSString ''list:list'']\<rparr>"
          "\<lparr>ListCollectionViewEdit = ''L'', PairCollectionViewEdit = ''P'',
           ListOfPairsCollectionViewEdit = ''LP'', ListOfListsCollectionViewEdit = ''LL''\<rparr>"]
  by (simp add: get_def)

lemma getFoldoutPanelClass_no_model:
  "model this = None \<Longrightarrow> getFoldoutPanelClass DC this = (Inl NoModelTypeError, this)"
  by (simp add: getFoldoutPanelClass_def bindM_def this_model_get_def)

text \<open>
  C3. The outcome of \<open>_getFoldoutPanelClass\<close> depends only on the model's
  \<open>collection_type\<close>: two views whose models agree on it (or that both lack a model) get
  the same outcome, the same class returned or the same error thrown, whatever their other
  attributes, such as \<open>deleted\<close>, are.
\<close>

theorem getFoldoutPanelClass_depends_only_on_collection_type:
  assumes "map_option (\<lambda>m. get m ''collection_type'') (model this1)
             = map_option (\<lambda>m. get m ''collection_type'') (model this2)"
  shows "fst (getFoldoutPanelClass DC this1) = fst (getFoldoutPanelClass DC this2)"
proof (cases "model this1")
  case None
  with assms have "model this2 = None" by simp
  with None show ?thesis by (simp add: getFoldoutPanelClass_no_model)
next
  case (Some m1)
  with assms obtain m2 where m2: "model this2 = Some m2"
    and eq: "get m1 ''collection_type'' = get m2 ''collection_type''"
    by (cases "model this2") auto
  show ?thesis
    by (simp add: getFoldoutPanelClass_on_model [OF Some] getFoldoutPanelClass_on_model [OF m2] eq)
qed

theorem getFoldoutPanelClass_depends_only_on_collection_type_witness:
  "fst (getFoldoutPanelClass
          \<lparr>ListCollectionViewEdit = ''L'', PairCollectionViewEdit = ''P'',
           ListOfPairsCollectionViewEdit = ''LP'', ListOfListsCollectionViewEdit = ''LL''\<rparr>
          \<lparr>model = Some \<lparr>attributes = [''collection_type'' \<mapsto> JSString ''paired'',
                                        ''deleted'' \<mapsto> JSBool True]\<rparr>\<rparr>)
     = fst (getFoldoutPanelClass
          \<lparr>ListCollectionViewEdit = ''L'', PairCollectionViewEdit = ''P'',
           ListOfPairsCollectionViewEdit = ''LP'', ListOfListsCollectionViewEdit = ''LL''\<rparr>
          \<lparr>model = Some \<lparr>attributes = [''collection_type'' \<mapsto> JSString ''paired'',
                                        ''deleted'' \<mapsto> JSBool False,
                                        ''name'' \<mapsto> JSString ''pair 1'']\<rparr>\<rparr>)"
  by (rule getFoldoutPanelClass_depends_only_on_collection_type) (simp add: get_def)

text \<open>
  C9. \<open>_getFoldoutPanelClass\<close> only reads the view: whether it returns a panel class or
  throws, the state it leaves is the state it was called on, so the model and all its
  attributes (\<open>collection_type\<close> and \<open>deleted\<close> among them) are unchanged.
\<close>

theorem getFoldoutPanelClass_read_only:
  "snd (getFoldoutPanelClass DC this) = this"
proof (cases "model this")
  case None
  then show ?thesis by (simp add: getFoldoutPanelClass_no_model)
next
  case (Some m)
  then show ?thesis by (simp add: getFoldoutPanelClass_on_model)
qed

section \<open>The delete button\<close>

lemma renderDeleteButton_on_model:
  assumes "model this = Some m"
  shows "renderDeleteButton l fa this =
    (Inr (fa \<lparr>title = (if ToBoolean (get m ''deleted'')
                         then l ''Dataset collection is already deleted'' else l ''Delete''),
               classes = ''delete-btn'',
               faIcon = ''fa-times'',
               disabled = get m ''deleted'',
               onclick = [ElFindTrigger ''.icon-btn.delete-btn'' ''mouseout'', ModelDelete]\<rparr>),
     this)"
  unfolding renderDeleteButton_def bindM_this_model_get [OF assms]
  by (simp add: returnM_def)

text \<open>
  C7 (amended). For a view whose model has the boolean \<open>deleted\<close>, the button
  \<open>_renderDeleteButton\<close> returns is the one \<open>faIconButton\<close> builds from these options:
  \<open>disabled\<close> is the \<open>deleted\<close> flag itself, so the button is disabled exactly when the
  model is deleted; \<open>title\<close> is the localizer's rendering \<open>_l(...)\<close> of
  \<open>Dataset collection is already deleted\<close> when \<open>deleted\<close> is true and of \<open>Delete\<close> when it is
  false; \<open>classes\<close> is \<open>delete-btn\<close> and \<open>faIcon\<close> is \<open>fa-times\<close> in both cases.
\<close>

theorem renderDeleteButton_options:
  assumes "model this = Some m" and "get m ''deleted'' = JSBool deleted"
  shows "fst (renderDeleteButton l fa this) =
    Inr (fa \<lparr>title = l (if deleted then ''Dataset collection is already deleted'' else ''Delete''),
              classes = ''delete-btn'',
              faIcon = ''fa-times'',
              disabled = JSBool deleted,
              onclick = [ElFindTrigger ''.icon-btn.delete-btn'' ''mouseout'', ModelDelete]\<rparr>)"
  by (simp add: renderDeleteButton_on_model [OF assms(1)] assms(2))

theorem renderDeleteButton_options_witness:
  "fst (renderDeleteButton (\<lambda>s. s) (\<lambda>options. options)
          \<lparr>model = Some \<lparr>attributes = [''collection_type'' \<mapsto> JSString ''list'',
                                        ''deleted'' \<mapsto> JSBool True]\<rparr>\<rparr>)
     = Inr \<lparr>title = ''Dataset collection is already deleted'', classes = ''delete-btn'',
            faIcon = ''fa-times'', disabled = JSBool True,
            onclick = [ElFindTrigger ''.icon-btn.delete-btn'' ''mouseout'', ModelDelete]\<rparr>
   \<and> fst (renderDeleteButton (\<lambda>s. s) (\<lambda>options. options)
          \<lparr>model = Some \<lparr>attributes = [''collection_type'' \<mapsto> JSString ''list'',
                                        ''deleted'' \<mapsto> JSBool False]\<rparr>\<rparr>)
     = Inr \<lparr>title = ''Delete'', classes = ''delete-btn'',
            faIcon = ''fa-times'', disabled = JSBool False,
            onclick = [ElFindTrigger ''.icon-btn.delete-btn'' ''mouseout'', ModelDelete]\<rparr>"
  using renderDeleteButton_options
      [of "\<lparr>model = Some \<lparr>attributes = [''collection_type'' \<mapsto> JSString ''list'',
                                        ''deleted'' \<mapsto> JSBool True]\<rparr>\<rparr>"
          "\<lparr>attributes = [''collection_type'' \<mapsto> JSString ''list'',
                                        ''deleted'' \<mapsto> JSBool True]\<rparr>"
          True "\<lambda>s. s" "\<lambda>options. options"]
    renderDeleteButton_options
      [of "\<lparr>model = Some \<lparr>attributes = [''collection_type'' \<mapsto> JSString ''list'',
                                        ''deleted'' \<mapsto> JSBool False]\<rparr>\<rparr>"
          "\<lparr>attributes = [''collection_type'' \<mapsto> JSString ''list'',
                                        ''deleted'' \<mapsto> JSBool False]\<rparr>"
          False "\<lambda>s. s" "\<lambda>options. options"]
  by (simp add: get_def)

text \<open>
  C7 as stated gives the title as the English message itself. The title goes through the
  localizer: under a locale table that translates \<open>Delete\<close> (a lookup that falls back to
  the message when the table has no entry for it), the button of a model that is not
  deleted carries the translation, not \<open>Delete\<close>.
\<close>

theorem renderDeleteButton_title_counterexample:
  "fst (renderDeleteButton
          (\<lambda>s. case map_of [(''Delete'', ''Supprimer'')] s of Some t \<Rightarrow> t | None \<Rightarrow> s)
          (\<lambda>options. options)
          \<lparr>model = Some \<lparr>attributes = [''collection_type'' \<mapsto> JSString ''list'',
                                        ''deleted'' \<mapsto> JSBool False]\<rparr>\<rparr>)
     = Inr \<lparr>title = ''Supprimer'', classes = ''delete-btn'',
            faIcon = ''fa-times'', disabled = JSBool False,
            onclick = [ElFindTrigger ''.icon-btn.delete-btn'' ''mouseout'', ModelDelete]\<rparr>
   \<and> fst (renderDeleteButton
          (\<lambda>s. case map_of [(''Delete'', ''Supprimer'')] s of Some t \<Rightarrow> t | None \<Rightarrow> s)
          (\<lambda>options. options)
          \<lparr>model = Some \<lparr>attributes = [''collection_type'' \<mapsto> JSString ''list'',
                                        ''deleted'' \<mapsto> JSBool False]\<rparr>\<rparr>)
     \<noteq> Inr \<lparr>title = ''Delete'', classes = ''delete-btn'',
            faIcon = ''fa-times'', disabled = JSBool False,
            onclick = [ElFindTrigger ''.icon-btn.delete-btn'' ''mouseout'', ModelDelete]\<rparr>"
  by (simp add: renderDeleteButton_def bindM_def this_model_get_def returnM_def get_def)

section \<open>The string form of the view\<close>

lemma toString_eq:
  "toString ms this =
     (Inr (''HDCAListItemEdit('' @ (case model this of Some m \<Rightarrow> ms m | None \<Rightarrow> ''(no model)'')
           @ '')''), this)"
  by (simp add: toString_def returnM_def)

text \<open>
  C8. \<open>toString\<close> never throws: on a view with a model it returns \<open>HDCAListItemEdit(\<close>, the
  model's string form and \<open>)\<close>; on a view without a model it returns
  \<open>HDCAListItemEdit((no model))\<close>; on every view it returns a string.
\<close>

theorem toString_total:
  "(\<forall>m. model this = Some m \<longrightarrow>
        fst (toString ms this) = Inr (''HDCAListItemEdit('' @ ms m @ '')''))
   \<and> (model this = None \<longrightarrow> fst (toString ms this) = Inr ''HDCAListItemEdit((no model))'')
   \<and> (\<exists>s. fst (toString ms this) = Inr s)"
  by (simp add: toString_eq)

theorem toString_total_witness:
  "fst (toString (\<lambda>m. ''HDCA(list)'')
          \<lparr>model = Some \<lparr>attributes = [''collection_type'' \<mapsto> JSString ''list'']\<rparr>\<rparr>)
     = Inr ''HDCAListItemEdit(HDCA(list))''
   \<and> fst (toString (\<lambda>m. ''HDCA(list)'') \<lparr>model = None\<rparr>) = Inr ''HDCAListItemEdit((no model))''"
  using toString_total
      [of "\<lparr>model = Some \<lparr>attributes = [''collection_type'' \<mapsto> JSString ''list'']\<rparr>\<rparr>"
          "\<lambda>m. ''HDCA(list)''"]
    toString_total [of "\<lparr>model = None\<rparr>" "\<lambda>m. ''HDCA(list)''"]
  by simp

section \<open>The primary actions\<close>

text \<open>
  C5. On a view with a model, \<open>_renderPrimaryActions\<close> returns the list the base class's
  \<open>_renderPrimaryActions\<close> returns, unchanged and in its order, with one more element at
  the end: the button \<open>_renderDeleteButton\<close> returns.
\<close>

theorem renderPrimaryActions_appends_delete_button:
  assumes "model this = Some m"
  shows "\<exists>deleteButton.
           fst (renderDeleteButton l fa this) = Inr deleteButton
         \<and> fst (renderPrimaryActions ms l fa super_renderPrimaryActions this)
             = Inr (super_renderPrimaryActions this @ [deleteButton])"
  by (simp add: renderPrimaryActions_def bindM_def toString_eq this_log_def returnM_def
      renderDeleteButton_on_model [OF assms])

theorem renderPrimaryActions_appends_delete_button_witness:
  "fst (renderPrimaryActions (\<lambda>m. ''HDCA'') (\<lambda>s. s) title (\<lambda>this. [''Display'', ''Edit attributes''])
          \<lparr>model = Some \<lparr>attributes = [''collection_type'' \<mapsto> JSString ''list'',
                                        ''deleted'' \<mapsto> JSBool False]\<rparr>\<rparr>)
     = Inr [''Display'', ''Edit attributes'', ''Delete'']"
  using renderPrimaryActions_appends_delete_button
      [of "\<lparr>model = Some \<lparr>attributes = [''collection_type'' \<mapsto> JSString ''list'',
                                        ''deleted'' \<mapsto> JSBool False]\<rparr>\<rparr>"
          "\<lparr>attributes = [''collection_type'' \<mapsto> JSString ''list'',
                                        ''deleted'' \<mapsto> JSBool False]\<rparr>"
          "\<lambda>s. s" title "\<lambda>m. ''HDCA''" "\<lambda>this. [''Display'', ''Edit attributes'']"]
  by (simp add: renderDeleteButton_on_model get_def)

section \<open>The error paths of the view\<close>







section \<open>The files of the karma configuration\<close>

text \<open>
  \<open>single_pack_mode()\<close> is truthy exactly when the variable is set to a string that is not
  empty: every such string is truthy, \<open>0\<close> and \<open>false\<close> included.
\<close>

lemma single_pack_mode_truthy:
  "ToBoolean (single_pack_mode env) \<longleftrightarrow>
     (\<exists>s. env ''GALAXY_TEST_AS_SINGLE_PACK'' = Some s \<and> s \<noteq> [])"
  by (simp add: single_pack_mode_def js_or_def process_env_get_def split: option.split)

text \<open>
  C4. The \<open>files\<close> list follows the environment variable \<open>GALAXY_TEST_AS_SINGLE_PACK\<close>:
  when it is set to a truthy value (a string that is not empty), \<open>files\<close> is the
  single-pack list, whose one pattern is \<open>galaxy/scripts/qunit/test.js\<close>, followed by the
  CSS asset pattern; when it is unset or falsy (the empty string), \<open>files\<close> is the
  separate-packs list followed by the same CSS asset pattern.
\<close>

theorem files_selected_by_single_pack_mode:
  "(\<forall>s. env ''GALAXY_TEST_AS_SINGLE_PACK'' = Some s \<and> s \<noteq> [] \<longrightarrow>
        files (module_exports env webpackConfig)
          = map PatternObject TESTS_AS_SINGLE_PACK
            @ [PatternString ''galaxy/scripts/qunit/assets/*.css''])
   \<and> (env ''GALAXY_TEST_AS_SINGLE_PACK'' = None \<or> env ''GALAXY_TEST_AS_SINGLE_PACK'' = Some [] \<longrightarrow>
        files (module_exports env webpackConfig)
          = map PatternObject TESTS_SEPARATE_PACKS
            @ [PatternString ''galaxy/scripts/qunit/assets/*.css''])
   \<and> TESTS_AS_SINGLE_PACK = [\<lparr>pattern = ''galaxy/scripts/qunit/test.js'', watched = False\<rparr>]"
  by (auto simp add: module_exports_def single_pack_mode_truthy TESTS_AS_SINGLE_PACK_def)

theorem files_selected_by_single_pack_mode_witness:
  "files (module_exports [''GALAXY_TEST_AS_SINGLE_PACK'' \<mapsto> ''1''] ())
     = [PatternObject \<lparr>pattern = ''galaxy/scripts/qunit/test.js'', watched = False\<rparr>,
        PatternString ''galaxy/scripts/qunit/assets/*.css'']
   \<and> files (module_exports [''GALAXY_TEST_AS_SINGLE_PACK'' \<mapsto> ''false''] ())
     = [PatternObject \<lparr>pattern = ''galaxy/scripts/qunit/test.js'', watched = False\<rparr>,
        PatternString ''galaxy/scripts/qunit/assets/*.css'']
   \<and> files (module_exports [''PATH'' \<mapsto> ''/usr/bin''] ())
     = map PatternObject TESTS_SEPARATE_PACKS
       @ [PatternString ''galaxy/scripts/qunit/assets/*.css'']
   \<and> files (module_exports [''GALAXY_TEST_AS_SINGLE_PACK'' \<mapsto> ''''] ())
     = map PatternObject TESTS_SEPARATE_PACKS
       @ [PatternString ''galaxy/scripts/qunit/assets/*.css'']"
proof -
  note single = files_selected_by_single_pack_mode [THEN conjunct1, rule_format]
  note separate = files_selected_by_single_pack_mode [THEN conjunct2, THEN conjunct1, rule_format]
  have "files (module_exports [''GALAXY_TEST_AS_SINGLE_PACK'' \<mapsto> ''1''] ())
          = map PatternObject TESTS_AS_SINGLE_PACK
            @ [PatternString ''galaxy/scripts/qunit/assets/*.css'']"
    by (rule single [of _ "''1''"]) simp
  moreover
  have "files (module_exports [''GALAXY_TEST_AS_SINGLE_PACK'' \<mapsto> ''false''] ())
          = map PatternObject TESTS_AS_SINGLE_PACK
            @ [PatternString ''galaxy/scripts/qunit/assets/*.css'']"
    by (rule single [of _ "''false''"]) simp
  moreover
  have "files (module_exports [''PATH'' \<mapsto> ''/usr/bin''] ())
          = map PatternObject TESTS_SEPARATE_PACKS
            @ [PatternString ''galaxy/scripts/qunit/assets/*.css'']"
    by (rule separate) simp
  moreover
  have "files (module_exports [''GALAXY_TEST_AS_SINGLE_PACK'' \<mapsto> ''''] ())
          = map PatternObject TESTS_SEPARATE_PACKS
            @ [PatternString ''galaxy/scripts/qunit/assets/*.css'']"
    by (rule separate) simp
  ultimately show ?thesis
    by (simp add: TESTS_AS_SINGLE_PACK_def)
qed

text \<open>
  C6. The separate-packs list holds exactly the eleven active test files, in the order of
  the source and each once, under \<open>galaxy/scripts/qunit/tests/\<close>; no entry is watched; and
  no entry is one of the tests that are commented out (\<open>ui_tests.js\<close>, \<open>modal_tests.js\<close>,
  \<open>upload_dialog_tests.js\<close>, \<open>form_tests.js\<close>, \<open>masthead_tests.js\<close>).
\<close>

theorem TESTS_SEPARATE_PACKS_contents:
  "map pattern TESTS_SEPARATE_PACKS
     = map (\<lambda>name. ''galaxy/scripts/qunit/tests/'' @ name)
         [''list-of-pairs-collection-creator.js'', ''galaxy-app-base.js'', ''graph.js'',
          ''hda-base.js'', ''history_contents_model_tests.js'', ''job-dag.js'',
          ''metrics-logger.js'', ''popover_tests.js'', ''utils_test.js'', ''page_tests.js'',
          ''workflow_editor_tests.js'']
   \<and> length TESTS_SEPARATE_PACKS = 11
   \<and> distinct (map pattern TESTS_SEPARATE_PACKS)
   \<and> filter watched TESTS_SEPARATE_PACKS = []
   \<and> filter (\<lambda>entry. suffix ''ui_tests.js'' (pattern entry)
                    \<or> suffix ''modal_tests.js'' (pattern entry)
                    \<or> suffix ''upload_dialog_tests.js'' (pattern entry)
                    \<or> suffix ''form_tests.js'' (pattern entry)
                    \<or> suffix ''masthead_tests.js'' (pattern entry)) TESTS_SEPARATE_PACKS = []"
  by (simp add: TESTS_SEPARATE_PACKS_def suffix_to_prefix)

end
